theory Spec2Isabelle
  imports Complex_Main
begin

section \<open>Data model\<close>

text \<open>
  The program is the page script \<^verbatim>\<open>static/js/main.js\<close>: a submit handler that validates
  the selected file, posts it, and renders the JSON answer into the page.

  Strings are ASCII text (\<^typ>\<open>string\<close>); a sign outside ASCII that the script itself
  writes, such as the star, is held as its bytes in UTF-8. A JSON number is a finite double, hence a
  rational number; \<^verbatim>\<open>Math.floor\<close>, \<^verbatim>\<open>% 1\<close> and the comparison with \<^verbatim>\<open>0.5\<close> are exact on
  doubles, so they are modelled on \<^typ>\<open>rat\<close>.
\<close>

text \<open>A \<^verbatim>\<open>File\<close> of the file input: \<^verbatim>\<open>name\<close>, \<^verbatim>\<open>size\<close> (bytes) and \<^verbatim>\<open>type\<close>.\<close>

record selected_file =
  file_name :: string
  file_size :: nat
  file_type :: string

text \<open>A value produced by \<^verbatim>\<open>JSON.parse\<close>. An absent property (\<^verbatim>\<open>undefined\<close>) is \<open>None\<close>
  of an option type.\<close>

datatype json =
  JNull
  | JBool bool
  | JNum rat
  | JStr string
  | JArr "json list"
  | JObj "(string \<times> json) list"

text \<open>
  The payload of the server, with the fields the script reads and the types the
  specification's data model gives them; a payload with a field of another type is outside
  the model. A field the script tests before use, or that the data model calls optional, is
  optional here (\<open>None\<close> is an absent or \<^verbatim>\<open>null\<close> field). The field \<^verbatim>\<open>sources\<close>, which the
  script inspects with \<^verbatim>\<open>typeof\<close> and \<^verbatim>\<open>Array.isArray\<close>, is an arbitrary JSON value.
\<close>

record analysis_result =
  experience_level :: string
  skill_count :: int
  domains :: "string list option"
  skills :: "string list option"

record recommendation =
  course_name :: string
  instructor :: string
  platform :: string
  match_percentage :: int
  rating :: "rat option"
  is_paid :: string
  enrolled :: "nat option"
  match_reasons :: "string list option"
  sources :: "json option"

record upload_response =
  success :: "bool option"
  analysis :: "analysis_result option"
  recommendations :: "recommendation list option"
  error :: "string option"

text \<open>
  What \<^verbatim>\<open>await fetch(...)\<close> followed by \<^verbatim>\<open>await response.json()\<close> can give: the request
  throws; or there is a response with its \<^verbatim>\<open>ok\<close> flag and a body that is not JSON (\<^verbatim>\<open>json()\<close>
  throws), is the JSON value \<^verbatim>\<open>null\<close>, or is a payload. A body that is a JSON number, string,
  boolean or array has none of the properties the script reads, and behaves as the payload
  with every field absent.
\<close>

datatype body = NotJSON | JsonNull | JsonData upload_response

datatype fetch_result = FetchThrows | Response bool body

datatype js_error = TypeError | RangeError

text \<open>The elements the script creates. A tag is a \<^verbatim>\<open>span\<close> with its class, its text and the
  two style properties the script sets on the summary tag.\<close>

record tag =
  className :: string
  textContent :: string
  background :: string
  color :: string

datatype icon = MoneyBag | FreeSign

text \<open>
  A course card, as the parts interpolated into its template: \<open>card_index\<close> is the index
  that \<^verbatim>\<open>animationDelay\<close> is computed from, \<open>card_rating\<close> the number printed by
  \<^verbatim>\<open>toFixed(1)\<close>, \<open>card_enrolled\<close> the text of the enrolled block when it is rendered,
  \<open>card_reasons\<close> the reasons of the reasons block when it is rendered, and
  \<open>card_link\<close> the value interpolated into the \<^verbatim>\<open>href\<close> of the course link when the link
  is rendered (what the page reads back from that markup is \<open>href_attribute\<close> below).
\<close>

record course_card =
  card_className :: string
  card_index :: nat
  card_title :: string
  card_instructor :: string
  card_match :: int
  card_stars :: string
  card_rating :: rat
  card_platform :: string
  card_paid_icon :: icon
  card_is_paid :: string
  card_enrolled :: "string option"
  card_reasons :: "string list option"
  card_link :: "json option"

datatype item = Paragraph string | Card course_card

text \<open>
  The page: the selected files of the file input, the text of the file-name display, the
  \<^verbatim>\<open>style.display\<close> of the four state containers, the text of the error message, and the
  regions of the results section.
\<close>

record page =
  files :: "selected_file list"
  fileName :: string
  uploadSection :: string
  loadingContainer :: string
  errorContainer :: string
  resultsSection :: string
  errorMessage :: string
  experienceLevel :: string
  skillCount :: int
  domainsList :: "tag list"
  skillsList :: "tag list"
  recCount :: nat
  recommendationsList :: "item list"

text \<open>A call that changes the page either returns or throws; the page at the throw is kept,
  since the handler's \<^verbatim>\<open>catch\<close> continues from it.\<close>

datatype outcome = Returns page | Throws js_error page

section \<open>View states\<close>

definition showLoading :: "page \<Rightarrow> page" where
  "showLoading s =
     s\<lparr>uploadSection := ''none'', errorContainer := ''none'',
       resultsSection := ''none'', loadingContainer := ''block''\<rparr>"

definition showError :: "string \<Rightarrow> page \<Rightarrow> page" where
  "showError message s =
     s\<lparr>uploadSection := ''none'', loadingContainer := ''none'',
       resultsSection := ''none'', errorContainer := ''block'',
       errorMessage := message\<rparr>"

text \<open>\<^verbatim>\<open>uploadForm.reset()\<close> empties the file input.\<close>

definition resetForm :: "page \<Rightarrow> page" where
  "resetForm s =
     s\<lparr>files := [], fileName := ''Choose File'',
       uploadSection := ''block'', loadingContainer := ''none'',
       errorContainer := ''none'', resultsSection := ''none''\<rparr>"

text \<open>The four states, and the ones a page shows: a container is visible unless its
  \<^verbatim>\<open>display\<close> is \<^verbatim>\<open>none\<close>.\<close>

datatype view = Upload | Loading | Error | Results

definition display_of :: "page \<Rightarrow> view \<Rightarrow> string" where
  "display_of s v =
     (case v of Upload \<Rightarrow> uploadSection s | Loading \<Rightarrow> loadingContainer s
      | Error \<Rightarrow> errorContainer s | Results \<Rightarrow> resultsSection s)"

definition visible :: "page \<Rightarrow> view list" where
  "visible s = filter (\<lambda>v. display_of s v \<noteq> ''none'') [Upload, Loading, Error, Results]"

section \<open>Validation\<close>

definition allowedTypes :: "string list" where
  "allowedTypes =
     [''application/pdf'',
      ''application/vnd.openxmlformats-officedocument.wordprocessingml.document'',
      ''application/msword'']"

text \<open>Lines 26 to 44 of the submit handler: \<open>Some message\<close> when the handler calls
  \<^verbatim>\<open>showError(message)\<close> and returns, \<open>None\<close> when it goes on to the upload.\<close>

definition validation :: "selected_file list \<Rightarrow> string option" where
  "validation fs =
     (case fs of
        [] \<Rightarrow> Some ''Please select a file to upload''
      | f # _ \<Rightarrow>
          if file_size f > 16 * 1024 * 1024 then Some ''File size exceeds 16MB limit''
          else if file_type f \<notin> set allowedTypes
            then Some ''Invalid file type. Please upload a PDF or DOCX file''
          else None)"

section \<open>Numbers as text\<close>

definition digit_char :: "nat \<Rightarrow> char" where
  "digit_char d = ''0123456789'' ! (d mod 10)"

fun decimal :: "nat \<Rightarrow> string" where
  "decimal n = (if n < 10 then [digit_char n] else decimal (n div 10) @ [digit_char (n mod 10)])"

fun strip_zeros :: "string \<Rightarrow> string" where
  "strip_zeros [] = []"
| "strip_zeros (c # cs) =
     (let r = strip_zeros cs in if r = [] \<and> c = CHR ''0'' then [] else c # r)"

text \<open>Exponent notation of an integer, from its own digits: \<^verbatim>\<open>d.ddde+x\<close>.\<close>

definition exponential :: "nat \<Rightarrow> string" where
  "exponential n =
     (let ds = decimal n; m = strip_zeros (tl ds)
      in hd ds # (if m = [] then [] else CHR ''.'' # m) @ ''e+'' @ decimal (length ds - 1))"

text \<open>
  \<^verbatim>\<open>Number.prototype.toString\<close> on a non-negative integer: plain digits below \<open>10\<^sup>2\<^sup>1\<close>,
  exponent notation from there on. ECMAScript prints the shortest digits that read back as
  the same double; these are the integer's own digits for every integer up to
  \<open>2\<^sup>5\<^sup>3 - 1\<close> (\<^verbatim>\<open>Number.MAX_SAFE_INTEGER\<close>) and for \<open>10\<^sup>2\<^sup>1\<close>, which is where the
  properties below use this function.
\<close>

definition number_toString :: "nat \<Rightarrow> string" where
  "number_toString n = (if n < 10 ^ 21 then decimal n else exponential n)"

definition is_digit :: "char \<Rightarrow> bool" where
  "is_digit c = (c \<in> set ''0123456789'')"

definition is_word :: "char \<Rightarrow> bool" where
  "is_word c =
     (c \<in> set ''abcdefghijklmnopqrstuvwxyzABCDEFGHIJKLMNOPQRSTUVWXYZ0123456789_'')"

text \<open>\<^verbatim>\<open>\B\<close> at a position with a character after it: the characters on both sides are word
  characters or neither is; the start of the text counts as not a word character.\<close>

definition not_boundary :: "char option \<Rightarrow> char \<Rightarrow> bool" where
  "not_boundary prev c = ((case prev of None \<Rightarrow> False | Some p \<Rightarrow> is_word p) = is_word c)"

text \<open>\<^verbatim>\<open>(?=(\d{3})+(?!\d))\<close>: the digits that follow, up to the first character that is not a
  digit, are three or more and a multiple of three.\<close>

definition lookahead :: "string \<Rightarrow> bool" where
  "lookahead cs = (let m = length (takeWhile is_digit cs) in 0 < m \<and> m mod 3 = 0)"

text \<open>\<^verbatim>\<open>replace(/\B(?=(\d{3})+(?!\d))/g, ",")\<close>: every position of the text where the
  pattern matches gets a comma; \<open>prev\<close> is the character before the position. At the end of
  the text the lookahead fails.\<close>

fun insert_commas :: "char option \<Rightarrow> string \<Rightarrow> string" where
  "insert_commas prev [] = []"
| "insert_commas prev (c # cs) =
     (if not_boundary prev c \<and> lookahead (c # cs) then '','' else '''')
     @ c # insert_commas (Some c) cs"

definition formatNumber :: "nat \<Rightarrow> string" where
  "formatNumber num = insert_commas None (number_toString num)"

section \<open>Rendering\<close>

text \<open>\<^verbatim>\<open>String.prototype.replace\<close> with a one-character text as pattern: the first
  occurrence only.\<close>

fun replace :: "char \<Rightarrow> char \<Rightarrow> string \<Rightarrow> string" where
  "replace a b [] = []"
| "replace a b (c # cs) = (if c = a then b # cs else c # replace a b cs)"

text \<open>\<^verbatim>\<open>String.prototype.toUpperCase\<close> on ASCII text: the letters a to z become A to Z. The
  method also maps letters outside ASCII, which are left as they are here.\<close>

definition toUpperCase_char :: "char \<Rightarrow> char" where
  "toUpperCase_char c =
     (case map_of (zip ''abcdefghijklmnopqrstuvwxyz'' ''ABCDEFGHIJKLMNOPQRSTUVWXYZ'') c of
        Some u \<Rightarrow> u | None \<Rightarrow> c)"

definition toUpperCase :: "string \<Rightarrow> string" where
  "toUpperCase s = map toUpperCase_char s"

definition span_tag :: "string \<Rightarrow> string \<Rightarrow> tag" where
  "span_tag cls txt = \<lparr>className = cls, textContent = txt, background = '''', color = ''''\<rparr>"

text \<open>The domains block of \<^verbatim>\<open>displayAnalysis\<close> (lines 120 to 132): the children of
  \<^verbatim>\<open>domainsList\<close>.\<close>

definition domain_tags :: "string list option \<Rightarrow> tag list" where
  "domain_tags ds =
     (case ds of
        None \<Rightarrow> [span_tag ''domain-tag'' ''General'']
      | Some l \<Rightarrow>
          if length l > 0
          then map (\<lambda>domain. span_tag ''domain-tag'' (toUpperCase (replace CHR ''_'' CHR '' '' domain))) l
          else [span_tag ''domain-tag'' ''General''])"

text \<open>The skills block of \<^verbatim>\<open>displayAnalysis\<close> (lines 134 to 155).\<close>

definition skill_tags :: "string list option \<Rightarrow> tag list" where
  "skill_tags sk =
     (case sk of
        None \<Rightarrow> [span_tag ''skill-tag'' ''No specific skills identified'']
      | Some l \<Rightarrow>
          if length l > 0
          then map (span_tag ''skill-tag'') (take 10 l)
               @ (if length l > 10
                  then [\<lparr>className = ''skill-tag'',
                         textContent = ''+'' @ number_toString (length l - 10) @ '' more'',
                         background = ''#667eea'', color = ''white''\<rparr>]
                  else [])
          else [span_tag ''skill-tag'' ''No specific skills identified''])"

definition displayAnalysis :: "analysis_result option \<Rightarrow> page \<Rightarrow> outcome" where
  "displayAnalysis a s =
     (case a of
        None \<Rightarrow> Throws TypeError s
      | Some a' \<Rightarrow>
          Returns (s\<lparr>experienceLevel := experience_level a',
                     skillCount := skill_count a',
                     domainsList := domain_tags (domains a'),
                     skillsList := skill_tags (skills a')\<rparr>))"

text \<open>The star sign, one character of the script, as its three bytes in UTF-8.\<close>

definition star :: string where
  "star = [CHR 0xE2, CHR 0xAD, CHR 0x90]"

text \<open>
  The length of a text as the script's engine counts it, in UTF-16 code units, for a text
  held here in UTF-8: one unit for each byte that is not a continuation byte
  (\<^verbatim>\<open>10xxxxxx\<close>), and one more for each lead byte of a four-byte sequence, which is a
  surrogate pair in UTF-16. An ASCII text has one unit for each character, and the star sign
  has one.
\<close>

definition code_units :: "string \<Rightarrow> nat" where
  "code_units s =
     length (filter (\<lambda>c. \<not> (128 \<le> (of_char c :: nat) \<and> (of_char c :: nat) < 192)) s)
     + length (filter (\<lambda>c. 240 \<le> (of_char c :: nat)) s)"

text \<open>
  The longest text the engine builds. It depends on the engine (\<open>2\<^sup>2\<^sup>9 - 24\<close> code units in
  V8 on 64-bit platforms, \<open>2\<^sup>3\<^sup>0 - 2\<close> in SpiderMonkey, \<open>2\<^sup>3\<^sup>1 - 1\<close> in JavaScriptCore), so
  it is the parameter \<open>limit\<close> of everything that builds the star text. An engine that has
  loaded the script holds the script's own literals; the media type of line 40 that is
  written out here is one of them, so the maximal length is never below its length.
\<close>

definition maxLength :: "nat \<Rightarrow> nat" where
  "maxLength limit =
     max limit
       (code_units ''application/vnd.openxmlformats-officedocument.wordprocessingml.document'')"

text \<open>\<^verbatim>\<open>String.prototype.repeat\<close> throws a \<^verbatim>\<open>RangeError\<close> on a negative count, and when the
  result would be longer than the engine's maximal text.\<close>

definition repeat :: "nat \<Rightarrow> string \<Rightarrow> int \<Rightarrow> js_error + string" where
  "repeat limit s n =
     (if n < 0 then Inl RangeError
      else if nat n * code_units s > maxLength limit then Inl RangeError
      else Inr (concat (replicate (nat n) s)))"

text \<open>The operator \<^verbatim>\<open>+\<close> on two texts throws a \<^verbatim>\<open>RangeError\<close> when the result would be
  longer than the engine's maximal text.\<close>

definition plus_text :: "nat \<Rightarrow> string \<Rightarrow> string \<Rightarrow> js_error + string" where
  "plus_text limit a b =
     (if code_units a + code_units b > maxLength limit then Inl RangeError else Inr (a @ b))"

text \<open>\<^verbatim>\<open>x % 1\<close>: what is left of \<open>x\<close> after its integer part, with the sign of \<open>x\<close>.\<close>

definition rem1 :: "rat \<Rightarrow> rat" where
  "rem1 x = x - of_int (if 0 \<le> x then \<lfloor>x\<rfloor> else \<lceil>x\<rceil>)"

text \<open>\<^verbatim>\<open>course.rating || 0\<close>.\<close>

definition rating_or_0 :: "rat option \<Rightarrow> rat" where
  "rating_or_0 r = (case r of None \<Rightarrow> 0 | Some x \<Rightarrow> x)"

text \<open>Line 185 of \<^verbatim>\<open>createCourseCard\<close>.\<close>

definition stars :: "nat \<Rightarrow> rat \<Rightarrow> js_error + string" where
  "stars limit r =
     (case repeat limit star \<lfloor>r\<rfloor> of
        Inl e \<Rightarrow> Inl e
      | Inr full \<Rightarrow> plus_text limit full (if rem1 r \<ge> 1 / 2 then star else ''''))"

text \<open>The truth value of a JSON value in a condition.\<close>

fun truthy :: "json \<Rightarrow> bool" where
  "truthy JNull = False"
| "truthy (JBool b) = b"
| "truthy (JNum x) = (x \<noteq> 0)"
| "truthy (JStr s) = (s \<noteq> [])"
| "truthy (JArr _) = True"
| "truthy (JObj _) = True"

text \<open>\<^verbatim>\<open>sources.replace(/'/g, '"')\<close>: every single quote becomes a double quote.\<close>

definition replace_quotes :: "string \<Rightarrow> string" where
  "replace_quotes s = map (\<lambda>c. if c = CHR 0x27 then CHR 0x22 else c) s"

text \<open>
  Lines 188 to 202 of \<^verbatim>\<open>createCourseCard\<close>. \<open>parse\<close> is the platform's \<^verbatim>\<open>JSON.parse\<close>,
  \<open>None\<close> where it throws. The result is the value interpolated into the \<^verbatim>\<open>href\<close> of the
  link, \<open>None\<close> when \<^verbatim>\<open>sourceLinks\<close> stays empty.
\<close>

definition sourceLinks :: "(string \<Rightarrow> json option) \<Rightarrow> json option \<Rightarrow> json option" where
  "sourceLinks parse src =
     (case src of
        None \<Rightarrow> None
      | Some v \<Rightarrow>
          if truthy v then
            (let srcs =
               (case v of
                  JStr str \<Rightarrow>
                    (case parse (replace_quotes str) of
                       Some decoded \<Rightarrow> decoded
                     | None \<Rightarrow> JArr [JStr str])
                | _ \<Rightarrow> v)
             in case srcs of
                  JArr (first # _) \<Rightarrow> Some first
                | _ \<Rightarrow> None)
          else None)"

text \<open>
  What the page shows for the link. Line 200 pastes the text \<open>v\<close> between the double quotes
  of \<^verbatim>\<open>href="..."\<close> as it is, and line 204 hands the markup to \<^verbatim>\<open>innerHTML\<close>, whose parser
  ends a double-quoted attribute value at the first double quote. The parser also decodes
  character references and replaces NUL and carriage returns, which is not modelled: the
  function is the value of \<^verbatim>\<open>href\<close> for a text without an ampersand, a NUL and a carriage
  return.
\<close>

definition href_attribute :: "string \<Rightarrow> string" where
  "href_attribute v = takeWhile (\<lambda>c. c \<noteq> CHR 0x22) v"

text \<open>
  \<^verbatim>\<open>createCourseCard\<close>. It throws where line 185 throws. The template of line 204 is a
  text as well, longer than the stars by the rest of the card, and the engine throws the
  same \<^verbatim>\<open>RangeError\<close> when that exceeds its maximal length; the length of the markup
  is not computed here, so the result is the one of the script for a card whose markup fits.
\<close>

definition createCourseCard ::
  "nat \<Rightarrow> (string \<Rightarrow> json option) \<Rightarrow> recommendation \<Rightarrow> nat \<Rightarrow> js_error + course_card" where
  "createCourseCard limit parse course index =
     (let r = rating_or_0 (rating course) in
      case stars limit r of
        Inl e \<Rightarrow> Inl e
      | Inr st \<Rightarrow>
          Inr \<lparr>card_className = ''course-card'',
               card_index = index,
               card_title = course_name course,
               card_instructor = instructor course,
               card_match = match_percentage course,
               card_stars = st,
               card_rating = r,
               card_platform = platform course,
               card_paid_icon = (if is_paid course = ''Paid'' then MoneyBag else FreeSign),
               card_is_paid = is_paid course,
               card_enrolled =
                 (case enrolled course of
                    None \<Rightarrow> None
                  | Some n \<Rightarrow> if n > 0 then Some (formatNumber n @ '' students'') else None),
               card_reasons =
                 (case match_reasons course of
                    None \<Rightarrow> None
                  | Some rs \<Rightarrow> if length rs > 0 then Some rs else None),
               card_link = sourceLinks parse (sources course)\<rparr>)"

text \<open>The \<^verbatim>\<open>forEach\<close> of \<^verbatim>\<open>displayRecommendations\<close>: a card that throws ends the loop, with
  the cards before it appended.\<close>

fun append_cards ::
  "nat \<Rightarrow> (string \<Rightarrow> json option) \<Rightarrow> recommendation list \<Rightarrow> nat \<Rightarrow> page \<Rightarrow> outcome" where
  "append_cards limit parse [] index s = Returns s"
| "append_cards limit parse (course # rest) index s =
     (case createCourseCard limit parse course index of
        Inl e \<Rightarrow> Throws e s
      | Inr courseCard \<Rightarrow>
          append_cards limit parse rest (index + 1)
            (s\<lparr>recommendationsList := recommendationsList s @ [Card courseCard]\<rparr>))"

definition displayRecommendations ::
  "nat \<Rightarrow> (string \<Rightarrow> json option) \<Rightarrow> recommendation list option \<Rightarrow> page \<Rightarrow> outcome" where
  "displayRecommendations limit parse rs s =
     (case rs of
        None \<Rightarrow> Throws TypeError s
      | Some recs \<Rightarrow>
          (let s1 = s\<lparr>recCount := length recs, recommendationsList := []\<rparr> in
           if length recs = 0
           then Returns (s1\<lparr>recommendationsList :=
                  [Paragraph ''No recommendations found. Try uploading a more detailed resume.'']\<rparr>)
           else append_cards limit parse recs 0 s1))"

definition displayResults ::
  "nat \<Rightarrow> (string \<Rightarrow> json option) \<Rightarrow> upload_response \<Rightarrow> page \<Rightarrow> outcome" where
  "displayResults limit parse data s =
     (let s1 = s\<lparr>uploadSection := ''none'', loadingContainer := ''none'',
                  errorContainer := ''none''\<rparr> in
      case displayAnalysis (analysis data) s1 of
        Throws e s2 \<Rightarrow> Throws e s2
      | Returns s2 \<Rightarrow>
          (case displayRecommendations limit parse (recommendations data) s2 of
             Throws e s3 \<Rightarrow> Throws e s3
           | Returns s3 \<Rightarrow> Returns (s3\<lparr>resultsSection := ''block''\<rparr>)))"

section \<open>The submit handler\<close>

text \<open>\<^verbatim>\<open>data.error || '...'\<close>: the empty text is false in a condition.\<close>

definition error_or_default :: "upload_response \<Rightarrow> string" where
  "error_or_default data =
     (case error data of
        None \<Rightarrow> ''An error occurred while processing your resume''
      | Some e \<Rightarrow> if e \<noteq> [] then e else ''An error occurred while processing your resume'')"

text \<open>
  Lines 53 to 72: the \<^verbatim>\<open>try\<close> block and its \<^verbatim>\<open>catch\<close>. On the body \<^verbatim>\<open>null\<close> the read of
  \<^verbatim>\<open>data.success\<close> throws a \<^verbatim>\<open>TypeError\<close>, and whatever \<^verbatim>\<open>displayResults\<close> throws is caught
  by the same \<^verbatim>\<open>catch\<close>.
\<close>

definition upload :: "nat \<Rightarrow> (string \<Rightarrow> json option) \<Rightarrow> fetch_result \<Rightarrow> page \<Rightarrow> page" where
  "upload limit parse r s =
     (case r of
        FetchThrows \<Rightarrow> showError ''Failed to connect to server. Please try again.'' s
      | Response ok b \<Rightarrow>
          (case b of
             NotJSON \<Rightarrow> showError ''Failed to connect to server. Please try again.'' s
           | JsonNull \<Rightarrow> showError ''Failed to connect to server. Please try again.'' s
           | JsonData data \<Rightarrow>
               if ok \<and> success data = Some True then
                 (case displayResults limit parse data s of
                    Returns s' \<Rightarrow> s'
                  | Throws e s' \<Rightarrow>
                      showError ''Failed to connect to server. Please try again.'' s')
               else showError (error_or_default data) s))"

definition submit :: "nat \<Rightarrow> (string \<Rightarrow> json option) \<Rightarrow> fetch_result \<Rightarrow> page \<Rightarrow> page" where
  "submit limit parse r s =
     (case validation (files s) of
        Some message \<Rightarrow> showError message s
      | None \<Rightarrow> upload limit parse r (showLoading s))"

section \<open>Reference notions and example inputs\<close>

text \<open>
  Digit grouping as the specification words it: a comma every three digits counting from
  the right, and none in a text of fewer than four digits.
\<close>

fun thousands :: "string \<Rightarrow> string" where
  "thousands ds =
     (if length ds < 4 then ds
      else thousands (take (length ds - 3) ds) @ '','' @ drop (length ds - 3) ds)"

declare thousands.simps [simp del]
declare decimal.simps [simp del]

text \<open>Replacing every underscore by a space, as the specification words the domain tags.\<close>

definition underscores_to_spaces :: "string \<Rightarrow> string" where
  "underscores_to_spaces s = map (\<lambda>c. if c = CHR ''_'' then CHR '' '' else c) s"

text \<open>A page in the Upload state, and files to select.\<close>

definition example_page :: page where
  "example_page =
     \<lparr>files = [], fileName = ''Choose File'',
      uploadSection = ''block'', loadingContainer = ''none'',
      errorContainer = ''none'', resultsSection = ''none'',
      errorMessage = '''', experienceLevel = '''', skillCount = 0,
      domainsList = [], skillsList = [], recCount = 0, recommendationsList = []\<rparr>"

definition pdf_file :: selected_file where
  "pdf_file = \<lparr>file_name = ''cv.pdf'', file_size = 16777216, file_type = ''application/pdf''\<rparr>"

definition big_pdf_file :: selected_file where
  "big_pdf_file =
     \<lparr>file_name = ''cv.pdf'', file_size = 16777217, file_type = ''application/pdf''\<rparr>"

definition text_file :: selected_file where
  "text_file = \<lparr>file_name = ''cv.txt'', file_size = 2048, file_type = ''text/plain''\<rparr>"

definition big_text_file :: selected_file where
  "big_text_file = \<lparr>file_name = ''cv.txt'', file_size = 16777217, file_type = ''text/plain''\<rparr>"

text \<open>The maximal text length of V8 on 64-bit platforms.\<close>

definition example_limit :: nat where
  "example_limit = 2 ^ 29 - 24"

text \<open>\<^verbatim>\<open>JSON.parse\<close> as far as the examples need it: the one array text they decode; on the
  other texts they pass, which are not JSON, it throws.\<close>

definition example_parse :: "string \<Rightarrow> json option" where
  \<open>example_parse =
     map_of [(''["http://a","http://b"]'', JArr [JStr ''http://a'', JStr ''http://b''])]\<close>

text \<open>The page an outcome carries, and the four \<^verbatim>\<open>display\<close> values of a page.\<close>

definition page_of :: "outcome \<Rightarrow> page" where
  "page_of out = (case out of Returns s \<Rightarrow> s | Throws e s \<Rightarrow> s)"

definition displays :: "page \<Rightarrow> string \<times> string \<times> string \<times> string" where
  "displays s = (uploadSection s, loadingContainer s, errorContainer s, resultsSection s)"

text \<open>Payloads: a full answer, the answer \<^verbatim>\<open>{"success": true}\<close>, and two failures.\<close>

definition example_analysis :: analysis_result where
  "example_analysis =
     \<lparr>experience_level = ''Senior'', skill_count = 12,
      domains = Some [''data_science_ml''],
      skills = Some [''python'', ''sql'', ''pandas'', ''numpy'', ''spark'', ''docker'', ''git'',
        ''linux'', ''aws'', ''airflow'', ''kafka'', ''scala'']\<rparr>"

definition example_course :: recommendation where
  \<open>example_course =
     \<lparr>course_name = ''Machine Learning'', instructor = ''A. Teacher'', platform = ''Coursera'',
      match_percentage = 87, rating = Some (47 / 10), is_paid = ''Paid'',
      enrolled = Some 1234567, match_reasons = Some [''Matches your skills''],
      sources = Some (JStr ''['http://a','http://b']'')\<rparr>\<close>

definition example_response :: upload_response where
  "example_response =
     \<lparr>success = Some True, analysis = Some example_analysis,
      recommendations = Some [example_course], error = None\<rparr>"



text \<open>A first source with a double quote in it.\<close>

definition quoted_source :: string where
  \<open>quoted_source = ''http://a/x"y''\<close>


definition empty_error_response :: upload_response where
  "empty_error_response =
     \<lparr>success = Some False, analysis = None, recommendations = None, error = Some ''''\<rparr>"


section \<open>Validation: the order of the rules\<close>

text \<open>
  C1. On submit the rules apply in order and the first failure wins: no file selected gives
  "Please select a file to upload"; else a size above 16,777,216 bytes gives "File size
  exceeds 16MB limit"; else a media type outside the three allowed ones gives "Invalid file
  type. Please upload a PDF or DOCX file"; and a file of at most 16,777,216 bytes with an
  allowed media type is accepted: nothing is rejected and the handler goes on to the
  Loading state and the upload.
\<close>

theorem submit_validation_order:
  "(files s = [] \<longrightarrow> submit limit parse r s = showError ''Please select a file to upload'' s) \<and>
   (files s = f # fs \<and> file_size f > 16777216 \<longrightarrow>
      submit limit parse r s = showError ''File size exceeds 16MB limit'' s) \<and>
   (files s = f # fs \<and> file_size f \<le> 16777216 \<and>
    file_type f \<notin> {''application/pdf'',
      ''application/vnd.openxmlformats-officedocument.wordprocessingml.document'',
      ''application/msword''} \<longrightarrow>
      submit limit parse r s = showError ''Invalid file type. Please upload a PDF or DOCX file'' s) \<and>
   (files s = f # fs \<and> file_size f \<le> 16777216 \<and>
    file_type f \<in> {''application/pdf'',
      ''application/vnd.openxmlformats-officedocument.wordprocessingml.document'',
      ''application/msword''} \<longrightarrow>
      validation (files s) = None \<and> submit limit parse r s = upload limit parse r (showLoading s))"
  by (simp add: submit_def validation_def allowedTypes_def)

theorem submit_validation_order_witness:
  "submit example_limit example_parse FetchThrows example_page
     = showError ''Please select a file to upload'' example_page \<and>
   submit example_limit example_parse FetchThrows (example_page\<lparr>files := [big_pdf_file]\<rparr>)
     = showError ''File size exceeds 16MB limit'' (example_page\<lparr>files := [big_pdf_file]\<rparr>) \<and>
   submit example_limit example_parse FetchThrows (example_page\<lparr>files := [text_file]\<rparr>)
     = showError ''Invalid file type. Please upload a PDF or DOCX file''
         (example_page\<lparr>files := [text_file]\<rparr>) \<and>
   submit example_limit example_parse FetchThrows (example_page\<lparr>files := [pdf_file]\<rparr>)
     = upload example_limit example_parse FetchThrows (showLoading (example_page\<lparr>files := [pdf_file]\<rparr>))"
  using submit_validation_order
      [where s = example_page and limit = example_limit and parse = example_parse
         and r = FetchThrows]
    submit_validation_order
      [where s = "example_page\<lparr>files := [big_pdf_file]\<rparr>" and f = big_pdf_file
         and fs = "[]" and limit = example_limit and parse = example_parse
         and r = FetchThrows]
    submit_validation_order
      [where s = "example_page\<lparr>files := [text_file]\<rparr>" and f = text_file
         and fs = "[]" and limit = example_limit and parse = example_parse
         and r = FetchThrows]
    submit_validation_order
      [where s = "example_page\<lparr>files := [pdf_file]\<rparr>" and f = pdf_file
         and fs = "[]" and limit = example_limit and parse = example_parse
         and r = FetchThrows]
  by (simp add: example_page_def big_pdf_file_def text_file_def pdf_file_def)

text \<open>
  C2, as stated: a selected file whose media type is outside the three allowed ones is
  rejected with the type message whatever its size. It fails on a text file of 16,777,217
  bytes: the size rule comes first, and the message is the one of the size rule.
\<close>

theorem type_message_regardless_of_size_counterexample:
  "file_type big_text_file \<notin> set allowedTypes \<and>
   validation [big_text_file] = Some ''File size exceeds 16MB limit'' \<and>
   errorMessage (submit example_limit example_parse FetchThrows (example_page\<lparr>files := [big_text_file]\<rparr>))
     \<noteq> ''Invalid file type. Please upload a PDF or DOCX file''"
  by (simp add: submit_def showError_def validation_def allowedTypes_def big_text_file_def
      example_page_def)

text \<open>
  C2, amended: a selected file whose media type is outside the three allowed ones is always
  rejected: with the type message "Invalid file type. Please upload a PDF or DOCX file" when
  its size is at most 16,777,216 bytes, and with the size message "File size exceeds 16MB
  limit" when it is larger.
\<close>

theorem type_message_within_size_limit:
  "file_type f \<notin> set allowedTypes \<Longrightarrow>
   validation (f # fs) =
     (if file_size f \<le> 16777216
      then Some ''Invalid file type. Please upload a PDF or DOCX file''
      else Some ''File size exceeds 16MB limit'')"
  by (simp add: validation_def)

theorem type_message_within_size_limit_witness:
  "validation [text_file] = Some ''Invalid file type. Please upload a PDF or DOCX file'' \<and>
   validation [big_text_file] = Some ''File size exceeds 16MB limit''"
  using type_message_within_size_limit [of text_file "[]"]
    type_message_within_size_limit [of big_text_file "[]"]
  by (simp add: allowedTypes_def text_file_def big_text_file_def)

section \<open>Thousands separators\<close>

lemma digit_char_is_digit: "is_digit (digit_char d)"
proof -
  have "d mod 10 < length ''0123456789''" by simp
  then have "''0123456789'' ! (d mod 10) \<in> set ''0123456789''" by (rule nth_mem)
  then show ?thesis by (simp only: is_digit_def digit_char_def)
qed

lemma decimal_digits: "\<forall>c \<in> set (decimal n). is_digit c"
proof (induction n rule: decimal.induct)
  case (1 n)
  show ?case
  proof (cases "n < 10")
    case True
    then show ?thesis by (simp add: decimal.simps [of n] digit_char_is_digit)
  next
    case False
    with 1 show ?thesis by (simp add: decimal.simps [of n] digit_char_is_digit)
  qed
qed

lemma is_digit_is_word: "is_digit c \<Longrightarrow> is_word c"
  by (auto simp: is_digit_def is_word_def)

lemma lookahead_digits:
  "\<forall>c \<in> set cs. is_digit c \<Longrightarrow> lookahead cs = (cs \<noteq> [] \<and> length cs mod 3 = 0)"
proof -
  assume "\<forall>c \<in> set cs. is_digit c"
  then have "takeWhile is_digit cs = cs" by (rule takeWhile_eq_all_conv [THEN iffD2])
  then have "lookahead cs = (0 < length cs \<and> length cs mod 3 = 0)"
    by (simp only: lookahead_def Let_def)
  then show ?thesis by simp
qed

lemma not_boundary_digits: "is_digit q \<Longrightarrow> is_digit c \<Longrightarrow> not_boundary (Some q) c"
  by (simp add: not_boundary_def is_digit_is_word)

lemma boundary_at_start: "is_digit c \<Longrightarrow> \<not> not_boundary None c"
  by (simp add: not_boundary_def is_digit_is_word)

lemma insert_commas_short:
  "is_digit q \<Longrightarrow> \<forall>c \<in> set ds. is_digit c \<Longrightarrow> length ds < 3 \<Longrightarrow>
   insert_commas (Some q) ds = ds"
proof (induction ds arbitrary: q)
  case Nil
  then show ?case by simp
next
  case (Cons d ds)
  then have "\<not> lookahead (d # ds)" by (simp add: lookahead_digits)
  with Cons show ?case by simp
qed

lemma insert_commas_last3:
  "is_digit q \<Longrightarrow> \<forall>c \<in> set (xs @ ys). is_digit c \<Longrightarrow> length ys = 3 \<Longrightarrow>
   insert_commas (Some q) (xs @ ys) = insert_commas (Some q) xs @ '','' @ ys"
proof (induction xs arbitrary: q)
  case Nil
  then obtain a b c where ys: "ys = [a, b, c]"
    by (auto simp: length_Suc_conv numeral_3_eq_3)
  with Nil have d: "is_digit a" "is_digit b" "is_digit c" by simp_all
  have "lookahead [a, b, c]" "\<not> lookahead [b, c]" "\<not> lookahead [c]"
    using d by (simp_all add: lookahead_digits)
  then show ?case using Nil.prems(1) d by (simp add: ys not_boundary_digits)
next
  case (Cons x xs)
  have dx: "is_digit x" using Cons.prems by simp
  have "length (x # xs @ ys) mod 3 = length (x # xs) mod 3"
    using Cons.prems(3) by simp presburger
  moreover have "lookahead (x # xs @ ys) = (length (x # xs @ ys) mod 3 = 0)"
    using Cons.prems(2) by (subst lookahead_digits) simp_all
  moreover have "lookahead (x # xs) = (length (x # xs) mod 3 = 0)"
    using Cons.prems(2) by (subst lookahead_digits) simp_all
  ultimately have "lookahead (x # xs @ ys) = lookahead (x # xs)"
    by (simp only:)
  moreover have "insert_commas (Some x) (xs @ ys) = insert_commas (Some x) xs @ '','' @ ys"
    using Cons.IH [of x] Cons.prems dx by simp
  ultimately show ?case by simp
qed

lemma insert_commas_thousands:
  "\<forall>c \<in> set ds. is_digit c \<Longrightarrow> insert_commas None ds = thousands ds"
proof (induction ds rule: thousands.induct)
  case (1 ds)
  show ?case
  proof (cases "length ds < 4")
    case True
    have "insert_commas None ds = ds"
    proof (cases ds)
      case Nil
      then show ?thesis by simp
    next
      case (Cons d ds')
      with 1 True show ?thesis
        by (simp add: boundary_at_start insert_commas_short)
    qed
    with True show ?thesis by (simp add: thousands.simps [of ds])
  next
    case False
    define xs where "xs = take (length ds - 3) ds"
    define ys where "ys = drop (length ds - 3) ds"
    have split: "ds = xs @ ys" and ly: "length ys = 3" and nx: "xs \<noteq> []"
      using False by (auto simp: xs_def ys_def)
    obtain x xs' where xs: "xs = x # xs'" using nx by (cases xs) auto
    have digs: "\<forall>c \<in> set (xs @ ys). is_digit c" using "1.prems" split by simp
    have dx: "is_digit x" using digs xs by simp
    have "insert_commas None ds = x # insert_commas (Some x) (xs' @ ys)"
      using dx by (simp add: split xs boundary_at_start)
    also have "insert_commas (Some x) (xs' @ ys) = insert_commas (Some x) xs' @ '','' @ ys"
      using insert_commas_last3 [of x xs' ys] dx digs ly xs by simp
    also have "x # (insert_commas (Some x) xs' @ '','' @ ys) = insert_commas None xs @ '','' @ ys"
      using dx by (simp add: xs boundary_at_start)
    also have "insert_commas None xs = thousands xs"
      using "1.IH" False digs by (simp add: xs_def [symmetric])
    finally show ?thesis
      using False by (simp add: thousands.simps [of ds] xs_def ys_def)
  qed
qed

text \<open>
  C9, amended: for every non-negative integer \<open>n\<close> up to \<open>2\<^sup>5\<^sup>3 - 1\<close>
  (\<^verbatim>\<open>Number.MAX_SAFE_INTEGER\<close>), \<^verbatim>\<open>formatNumber(n)\<close> is the decimal representation of \<open>n\<close>
  with a comma every three digits counting from the right, and no separator when \<open>n\<close> has
  fewer than four digits; \<^verbatim>\<open>formatNumber(1234567)\<close> is "1,234,567" and \<^verbatim>\<open>formatNumber(999)\<close>
  is "999".
\<close>

theorem formatNumber_groups_safe_integers:
  "n \<le> 2 ^ 53 - 1 \<Longrightarrow> formatNumber n = thousands (decimal n)"
proof -
  assume "n \<le> 2 ^ 53 - 1"
  then have "n < 10 ^ 21" by simp
  then show ?thesis
    by (simp add: formatNumber_def number_toString_def insert_commas_thousands decimal_digits)
qed

theorem formatNumber_groups_safe_integers_witness:
  "(1234567::nat) \<le> 2 ^ 53 - 1 \<and> formatNumber 1234567 = ''1,234,567'' \<and>
   (999::nat) \<le> 2 ^ 53 - 1 \<and> formatNumber 999 = ''999''"
proof -
  have a: "thousands (decimal 1234567) = ''1,234,567''"
    by (simp add: decimal.simps thousands.simps digit_char_def)
  have b: "thousands (decimal 999) = ''999''"
    by (simp add: decimal.simps thousands.simps digit_char_def)
  show ?thesis
    using formatNumber_groups_safe_integers [of 1234567]
      formatNumber_groups_safe_integers [of 999] a b by simp
qed

text \<open>
  C9, as stated: for every non-negative integer \<open>n\<close>, \<^verbatim>\<open>formatNumber(n)\<close> is the decimal
  representation of \<open>n\<close> with a comma every three digits. It fails at \<open>10\<^sup>2\<^sup>1\<close>, which
  \<^verbatim>\<open>toString\<close> prints in exponent notation: the result is "1e+21", with no comma.
\<close>

theorem formatNumber_exponent_counterexample:
  "formatNumber (10 ^ 21) = ''1e+21'' \<and>
   formatNumber (10 ^ 21) \<noteq> thousands (decimal (10 ^ 21))"
proof -
  have a: "formatNumber (10 ^ 21) = ''1e+21''"
    by (simp add: formatNumber_def number_toString_def exponential_def decimal.simps
        digit_char_def not_boundary_def is_word_def lookahead_def is_digit_def)
  have b: "thousands (decimal (10 ^ 21)) = ''1,000,000,000,000,000,000,000''"
    by (simp add: decimal.simps thousands.simps digit_char_def)
  show ?thesis by (simp only: a b) simp
qed

section \<open>Star ratings\<close>

lemma code_units_append: "code_units (a @ b) = code_units a + code_units b"
  by (simp add: code_units_def)

lemma code_units_star: "code_units star = 1"
  by (simp add: code_units_def star_def)

lemma code_units_stars: "code_units (concat (replicate n star)) = n"
  by (induction n) (simp_all add: code_units_append code_units_star, simp add: code_units_def)

lemma maxLength_at_least: "71 \<le> maxLength limit" "limit \<le> maxLength limit"
  by (simp_all add: maxLength_def code_units_def)

lemma stars_fit:
  "0 \<le> r \<Longrightarrow> nat \<lfloor>r\<rfloor> + 1 \<le> maxLength limit \<Longrightarrow>
   stars limit r
     = Inr (concat (replicate (nat \<lfloor>r\<rfloor> + (if frac r \<ge> 1 / 2 then 1 else 0)) star))"
proof -
  assume r: "0 \<le> r" and fit: "nat \<lfloor>r\<rfloor> + 1 \<le> maxLength limit"
  have f: "0 \<le> \<lfloor>r\<rfloor>" using r by simp
  have rem: "rem1 r = frac r" using r by (simp add: rem1_def frac_def)
  have app: "concat (replicate n star) @ star = concat (replicate (n + 1) star)" for n
    by (induction n) simp_all
  have full: "repeat limit star \<lfloor>r\<rfloor> = Inr (concat (replicate (nat \<lfloor>r\<rfloor>) star))"
    using f fit by (simp add: repeat_def code_units_star)
  have empty: "code_units [] = 0" by (simp add: code_units_def)
  show ?thesis
    using fit app [of "nat \<lfloor>r\<rfloor>"]
    by (simp add: stars_def full plus_text_def code_units_stars code_units_star empty rem)
qed



lemma createCourseCard_returns:
  "0 \<le> rating_or_0 (rating c) \<Longrightarrow> rating_or_0 (rating c) \<le> 5 \<Longrightarrow>
   \<exists>courseCard. createCourseCard limit parse c i = Inr courseCard"
proof -
  assume lo: "0 \<le> rating_or_0 (rating c)" and hi: "rating_or_0 (rating c) \<le> 5"
  have "\<lfloor>rating_or_0 (rating c)\<rfloor> \<le> 5" using hi by (simp add: floor_le_iff)
  then have "nat \<lfloor>rating_or_0 (rating c)\<rfloor> + 1 \<le> maxLength limit"
    using maxLength_at_least(1) [of limit] by linarith
  then show ?thesis using lo by (simp add: createCourseCard_def Let_def stars_fit)
qed




section \<open>View states are exclusive\<close>

lemma visible_displays:
  "visible s = filter (\<lambda>v. (case displays s of (u, l, e, r) \<Rightarrow>
      (case v of Upload \<Rightarrow> u | Loading \<Rightarrow> l | Error \<Rightarrow> e | Results \<Rightarrow> r)) \<noteq> ''none'')
      [Upload, Loading, Error, Results]"
  by (simp add: visible_def displays_def display_of_def)

lemma displayAnalysis_displays: "displays (page_of (displayAnalysis a s)) = displays s"
  by (cases a) (simp_all add: displayAnalysis_def page_of_def displays_def)

lemma append_cards_displays: "displays (page_of (append_cards limit parse cs i s)) = displays s"
proof (induction cs arbitrary: i s)
  case Nil
  show ?case by (simp add: page_of_def)
next
  case (Cons c cs)
  show ?case
  proof (cases "createCourseCard limit parse c i")
    case (Inl e)
    then show ?thesis by (simp add: page_of_def)
  next
    case (Inr card)
    then show ?thesis using Cons.IH by (simp add: displays_def)
  qed
qed

lemma displayRecommendations_displays:
  "displays (page_of (displayRecommendations limit parse rs s)) = displays s"
proof (cases rs)
  case None
  then show ?thesis by (simp add: displayRecommendations_def page_of_def)
next
  case (Some recs)
  have "displays (page_of (append_cards limit parse recs 0 (s\<lparr>recCount := length recs, recommendationsList := []\<rparr>)))
        = displays s"
    by (simp add: append_cards_displays) (simp add: displays_def)
  then show ?thesis using Some
    by (simp add: displayRecommendations_def Let_def) (simp add: page_of_def displays_def)
qed

lemma displayResults_displays:
  "displayResults limit parse d s = Returns s' \<Longrightarrow> displays s' = (''none'', ''none'', ''none'', ''block'')"
proof -
  assume r: "displayResults limit parse d s = Returns s'"
  define s1 where "s1 = s\<lparr>uploadSection := ''none'', loadingContainer := ''none'',
                  errorContainer := ''none''\<rparr>"
  from r obtain s2 s3 where
    a: "displayAnalysis (analysis d) s1 = Returns s2" and
    b: "displayRecommendations limit parse (recommendations d) s2 = Returns s3" and
    c: "s' = s3\<lparr>resultsSection := ''block''\<rparr>"
    by (auto simp: displayResults_def Let_def s1_def split: outcome.splits)
  have "displays s2 = displays s1"
    using displayAnalysis_displays [of "analysis d" s1] a by (simp add: page_of_def)
  moreover have "displays s3 = displays s2"
    using displayRecommendations_displays [of limit parse "recommendations d" s2] b
    by (simp add: page_of_def)
  ultimately show ?thesis using c by (simp add: displays_def s1_def)
qed

text \<open>
  C5. After each of \<^verbatim>\<open>showLoading\<close>, \<^verbatim>\<open>showError\<close>, \<^verbatim>\<open>displayResults\<close> and \<^verbatim>\<open>resetForm\<close>
  has completed, exactly one of the four state containers is visible and the other three
  are hidden: Loading, Error, Results and Upload respectively. \<^verbatim>\<open>resetForm\<close> ends in the
  Upload state with the file-name display reset to "Choose File", whatever the page was
  before.
\<close>

theorem exactly_one_state_visible:
  "visible (showLoading s) = [Loading] \<and>
   visible (showError message s) = [Error] \<and>
   (displayResults limit parse d s = Returns s' \<longrightarrow> visible s' = [Results]) \<and>
   visible (resetForm s) = [Upload] \<and>
   fileName (resetForm s) = ''Choose File''"
proof -
  have "visible (showLoading s) = [Loading]"
    by (simp add: visible_def display_of_def showLoading_def)
  moreover have "visible (showError message s) = [Error]"
    by (simp add: visible_def display_of_def showError_def)
  moreover have "displayResults limit parse d s = Returns s' \<longrightarrow> visible s' = [Results]"
    using displayResults_displays [of limit parse d s s'] by (auto simp: visible_displays)
  moreover have "visible (resetForm s) = [Upload]"
    by (simp add: visible_def display_of_def resetForm_def)
  moreover have "fileName (resetForm s) = ''Choose File''"
    by (simp add: resetForm_def)
  ultimately show ?thesis by (simp only: simp_thms)
qed

theorem exactly_one_state_visible_witness:
  "(\<exists>s'. displayResults example_limit example_parse example_response (showLoading example_page) = Returns s') \<and>
   visible (page_of (displayResults example_limit example_parse example_response (showLoading example_page)))
     = [Results]"
proof -
  have "\<exists>card. createCourseCard example_limit example_parse example_course 0 = Inr card"
    using createCourseCard_returns [of example_course example_limit example_parse 0]
    by (simp add: example_course_def rating_or_0_def)
  then obtain s' where
    r: "displayResults example_limit example_parse example_response (showLoading example_page) = Returns s'"
    by (auto simp: displayResults_def displayAnalysis_def displayRecommendations_def
        example_response_def Let_def)
  have "visible s' = [Results]"
    using exactly_one_state_visible
      [where limit = example_limit and parse = example_parse and d = example_response
         and s = "showLoading example_page" and s' = s'] r
    by simp
  then show ?thesis using r by (simp add: page_of_def)
qed

section \<open>Domain tags\<close>

lemma domain_tags_placeholder:
  "ds = None \<or> ds = Some [] \<Longrightarrow> domain_tags ds = [span_tag ''domain-tag'' ''General'']"
  by (auto simp: domain_tags_def)

lemma replace_at_most_one:
  "count_list domain CHR ''_'' \<le> 1 \<Longrightarrow>
   replace CHR ''_'' CHR '' '' domain = underscores_to_spaces domain"
proof (induction domain)
  case Nil
  show ?case by (simp add: underscores_to_spaces_def)
next
  case (Cons c cs)
  show ?case
  proof (cases "c = CHR ''_''")
    case True
    with Cons.prems have "count_list cs CHR ''_'' = 0" by simp
    then have "CHR ''_'' \<notin> set cs" by (simp add: count_list_0_iff)
    then have "map (\<lambda>c. if c = CHR ''_'' then CHR '' '' else c) cs = cs"
      by (induction cs) auto
    with True show ?thesis by (simp add: underscores_to_spaces_def)
  next
    case False
    with Cons show ?thesis by (simp add: underscores_to_spaces_def)
  qed
qed

lemma domain_tags_at_most_one_underscore:
  "l \<noteq> [] \<Longrightarrow> \<forall>domain \<in> set l. count_list domain CHR ''_'' \<le> 1 \<Longrightarrow>
   map textContent (domain_tags (Some l)) = map (\<lambda>domain. toUpperCase (underscores_to_spaces domain)) l"
  by (simp add: domain_tags_def span_tag_def replace_at_most_one)

text \<open>
  C3. The rendered tag of a domain is the domain with its underscores replaced by spaces,
  uppercased, also for a domain with more than one underscore; an empty or absent domain
  list gives the one placeholder tag "General". The script replaces the first underscore
  only: the domain \<^verbatim>\<open>data_science_ml\<close> is rendered as "DATA SCIENCE_ML", where replacing every
  underscore gives "DATA SCIENCE ML".
\<close>

theorem domain_tag_second_underscore_kept:
  "domains example_analysis = Some [''data_science_ml''] \<and>
   map textContent (domainsList (page_of (displayAnalysis (Some example_analysis) example_page)))
     = [''DATA SCIENCE_ML''] \<and>
   toUpperCase (underscores_to_spaces ''data_science_ml'') = ''DATA SCIENCE ML'' \<and>
   map textContent (domainsList (page_of (displayAnalysis (Some example_analysis) example_page)))
     \<noteq> [toUpperCase (underscores_to_spaces ''data_science_ml'')]"
  by (simp add: displayAnalysis_def page_of_def example_analysis_def domain_tags_def span_tag_def
      toUpperCase_def toUpperCase_char_def underscores_to_spaces_def)

section \<open>Skill tags\<close>

text \<open>
  C8. The first ten skills are rendered verbatim as tags; a list of more than ten skills
  gets exactly one more tag, "+N more" with \<open>N\<close> the length of the list minus ten, and a
  list of exactly ten gets none; an empty or absent list gives the one placeholder tag
  "No specific skills identified".
\<close>

theorem skill_tags_first_ten_and_summary:
  "(sk = None \<or> sk = Some [] \<longrightarrow>
      map textContent (skill_tags sk) = [''No specific skills identified'']) \<and>
   (sk = Some l \<and> l \<noteq> [] \<longrightarrow>
      map textContent (skill_tags sk)
        = take 10 l @ (if length l > 10
                       then [''+'' @ number_toString (length l - 10) @ '' more'']
                       else [])) \<and>
   (length l - 10 < 10 ^ 21 \<longrightarrow> number_toString (length l - 10) = decimal (length l - 10))"
  by (auto simp: skill_tags_def span_tag_def number_toString_def take_map [symmetric] comp_def)

theorem skill_tags_first_ten_and_summary_witness:
  "map textContent (skill_tags None) = [''No specific skills identified''] \<and>
   map textContent (skill_tags (Some [])) = [''No specific skills identified''] \<and>
   map textContent (skill_tags (skills example_analysis))
     = [''python'', ''sql'', ''pandas'', ''numpy'', ''spark'', ''docker'', ''git'',
        ''linux'', ''aws'', ''airflow'', ''+2 more''] \<and>
   map textContent (skill_tags (Some (take 10 (the (skills example_analysis)))))
     = [''python'', ''sql'', ''pandas'', ''numpy'', ''spark'', ''docker'', ''git'',
        ''linux'', ''aws'', ''airflow'']"
  using skill_tags_first_ten_and_summary [of None "[]"]
    skill_tags_first_ten_and_summary [of "Some []" "[]"]
    skill_tags_first_ten_and_summary
      [of "skills example_analysis" "the (skills example_analysis)"]
    skill_tags_first_ten_and_summary
      [of "Some (take 10 (the (skills example_analysis)))" "take 10 (the (skills example_analysis))"]
  by (simp add: example_analysis_def decimal.simps digit_char_def)

section \<open>Course links\<close>

lemma card_link_sourceLinks:
  "createCourseCard limit parse course index = Inr courseCard \<Longrightarrow>
   card_link courseCard = sourceLinks parse (sources course)"
  by (auto simp: createCourseCard_def Let_def split: sum.splits)

text \<open>
  The value that line 200 interpolates into the link: the first entry of a non-empty array;
  the first entry of the array that a text decodes to once its single quotes are double
  quotes; the whole text when it does not decode; and no link when there are no sources.
\<close>

lemma sourceLinks_value:
  \<open>(src = Some (JArr (x # xs)) \<longrightarrow> sourceLinks parse src = Some x) \<and>
   (src = Some (JStr str) \<and> str \<noteq> [] \<and> parse (replace_quotes str) = Some (JArr (x # xs)) \<longrightarrow>
      sourceLinks parse src = Some x) \<and>
   (parse ''["http://a","http://b"]'' = Some (JArr [JStr ''http://a'', JStr ''http://b'']) \<longrightarrow>
      sourceLinks parse (Some (JStr ''['http://a','http://b']'')) = Some (JStr ''http://a'')) \<and>
   (src = Some (JStr str) \<and> str \<noteq> [] \<and> parse (replace_quotes str) = None \<longrightarrow>
      sourceLinks parse src = Some (JStr str)) \<and>
   (src = None \<or> src = Some JNull \<or> src = Some (JStr []) \<or> src = Some (JArr []) \<longrightarrow>
      sourceLinks parse src = None)\<close>
  by (auto simp: sourceLinks_def replace_quotes_def)

lemma sourceLinks_value_examples:
  \<open>sourceLinks example_parse (Some (JArr [JStr ''http://x'', JStr ''http://y'']))
     = Some (JStr ''http://x'') \<and>
   sourceLinks example_parse (Some (JStr ''['http://a','http://b']'')) = Some (JStr ''http://a'') \<and>
   sourceLinks example_parse (Some (JStr ''http://a'')) = Some (JStr ''http://a'') \<and>
   sourceLinks example_parse None = None\<close>
  by (simp add: sourceLinks_def example_parse_def replace_quotes_def)

text \<open>A text without a double quote is the value of the attribute it is pasted into.\<close>

lemma href_attribute_plain: "CHR 0x22 \<notin> set v \<Longrightarrow> href_attribute v = v"
  by (auto simp: href_attribute_def takeWhile_eq_all_conv)

text \<open>
  C7. The rendered link targets the first entry of \<^verbatim>\<open>sources\<close> (given as an array, or decoded
  from a text with single quotes in place of double quotes), the whole text when decoding
  fails, and there is no link without sources. The script pastes the entry into
  \<^verbatim>\<open>href="..."\<close> without escaping it: for the sources \<^verbatim>\<open>['http://a/x"y']\<close> the entry
  \<^verbatim>\<open>http://a/x"y\<close> is interpolated, and the link that the page renders targets
  \<^verbatim>\<open>http://a/x\<close>, not the entry.
\<close>

theorem link_target_cut_at_double_quote:
  "sourceLinks example_parse (Some (JArr [JStr quoted_source])) = Some (JStr quoted_source) \<and>
   href_attribute quoted_source = ''http://a/x'' \<and>
   href_attribute quoted_source \<noteq> quoted_source"
  by (simp add: sourceLinks_def href_attribute_def quoted_source_def)

section \<open>Routing of the answer\<close>









text \<open>
  C10. When the response parses as JSON and does not indicate success, an error text that
  is present but empty is treated as an absent one: the Error state shows "An error
  occurred while processing your resume".
\<close>

theorem empty_error_string_as_absent:
  "\<not> (ok \<and> success d = Some True) \<Longrightarrow> error d = Some [] \<Longrightarrow>
   upload limit parse (Response ok (JsonData d)) s
     = showError ''An error occurred while processing your resume'' s \<and>
   upload limit parse (Response ok (JsonData d)) s
     = upload limit parse (Response ok (JsonData (d\<lparr>error := None\<rparr>))) s"
  by (auto simp: upload_def error_or_default_def)

theorem empty_error_string_as_absent_witness:
  "errorMessage (upload example_limit example_parse
      (Response True (JsonData empty_error_response))
      (showLoading example_page)) = ''An error occurred while processing your resume'' \<and>
   visible (upload example_limit example_parse (Response True (JsonData empty_error_response))
      (showLoading example_page)) = [Error]"
  using empty_error_string_as_absent
    [where ok = True and d = empty_error_response and limit = example_limit
       and parse = example_parse and s = "showLoading example_page"]
  by (simp add: empty_error_response_def showError_def visible_def display_of_def)

end
